theory Spec2Isabelle
  imports Complex_Main "HOL-Library.Product_Lexorder" "HOL-Library.List_Lexorder"
    "HOL-Library.AList"
begin

section \<open>Strings of code points\<close>

text \<open>
  A Python \<open>str\<close> is a sequence of Unicode code points, and \<open>len\<close>, indexing and slicing
  count code points. A string is therefore a list of code points (natural numbers).
  \<open>asc\<close> reads an ASCII literal.
\<close>

type_synonym cp = nat
type_synonym ustr = "cp list"

definition asc :: "string \<Rightarrow> ustr" where
  "asc s = map of_char s"

datatype py_error = IndexError | ValueError | DatabaseError

definition py_isspace :: "cp \<Rightarrow> bool" where
  "py_isspace c \<longleftrightarrow>
     (9 \<le> c \<and> c \<le> 13) \<or> (28 \<le> c \<and> c \<le> 32) \<or> c = 0x85 \<or> c = 0xA0 \<or> c = 0x1680 \<or>
     (0x2000 \<le> c \<and> c \<le> 0x200A) \<or> c = 0x2028 \<or> c = 0x2029 \<or> c = 0x202F \<or>
     c = 0x205F \<or> c = 0x3000"

text \<open>
  The Unicode tables behind \<open>str.lower\<close>, \<open>str.upper\<close>, \<open>str.isupper\<close>, \<open>str.isdigit\<close> and
  \<open>int\<close> belong to the interpreter, not to the repository, and they change with its Unicode
  version. They are a parameter of every function that uses them: \<open>u_lower\<close>, \<open>u_upper\<close> and
  \<open>u_isupper\<close> act on whole strings (lowering depends on the context and may change the
  length), \<open>u_isdigit\<close> is \<open>c.isdigit()\<close> of one character, and \<open>u_int\<close> is \<open>int(c)\<close> of one
  character, \<open>None\<close> for the ValueError. \<open>py_isspace\<close> above is the whole table of
  \<open>str.isspace\<close>, which the \<open>\s\<close> of \<open>re\<close> shares.
\<close>

record unicode_tables =
  u_lower :: "ustr \<Rightarrow> ustr"
  u_upper :: "ustr \<Rightarrow> ustr"
  u_isupper :: "ustr \<Rightarrow> bool"
  u_isdigit :: "cp \<Rightarrow> bool"
  u_int :: "cp \<Rightarrow> int option"

definition py_strip :: "ustr \<Rightarrow> ustr" where
  \<comment> \<open>\<open>s.strip()\<close>\<close>
  "py_strip s = rev (dropWhile py_isspace (rev (dropWhile py_isspace s)))"

fun py_split :: "cp \<Rightarrow> ustr \<Rightarrow> ustr list" where
  \<comment> \<open>\<open>s.split(sep)\<close> for a one-character separator: empty fields are kept\<close>
  "py_split sep [] = [[]]"
| "py_split sep (x # xs) =
     (if x = sep then [] # py_split sep xs
      else (case py_split sep xs of [] \<Rightarrow> [[x]] | w # ws \<Rightarrow> (x # w) # ws))"

fun py_join :: "ustr \<Rightarrow> ustr list \<Rightarrow> ustr" where
  \<comment> \<open>\<open>sep.join(xs)\<close>\<close>
  "py_join sep [] = []"
| "py_join sep [x] = x"
| "py_join sep (x # y # ys) = x @ sep @ py_join sep (y # ys)"

fun py_replace2 :: "cp \<Rightarrow> cp \<Rightarrow> cp \<Rightarrow> ustr \<Rightarrow> ustr" where
  \<comment> \<open>\<open>s.replace(ab, r)\<close> for a two-character pattern and a one-character replacement\<close>
  "py_replace2 a b r (x # y # zs) =
     (if x = a \<and> y = b then r # py_replace2 a b r zs else x # py_replace2 a b r (y # zs))"
| "py_replace2 a b r xs = xs"

fun py_find :: "cp \<Rightarrow> ustr \<Rightarrow> nat option" where
  \<comment> \<open>\<open>s.find(c)\<close>; \<open>None\<close> stands for the \<open>-1\<close> of "not found"\<close>
  "py_find c [] = None"
| "py_find c (x # xs) = (if x = c then Some 0 else map_option Suc (py_find c xs))"

fun contains2 :: "cp \<Rightarrow> cp \<Rightarrow> ustr \<Rightarrow> bool" where
  \<comment> \<open>\<open>ab in s\<close> for a two-character pattern\<close>
  "contains2 a b (x # y # zs) = ((x = a \<and> y = b) \<or> contains2 a b (y # zs))"
| "contains2 a b xs = False"

fun py_in :: "ustr \<Rightarrow> ustr \<Rightarrow> bool" where
  \<comment> \<open>\<open>x in s\<close> for strings: \<open>x\<close> occurs in \<open>s\<close> as a substring\<close>
  "py_in x [] = (x = [])"
| "py_in x (c # s) = (take (length x) (c # s) = x \<or> py_in x s)"

definition index_at :: "'a list \<Rightarrow> int \<Rightarrow> py_error + 'a" where
  \<comment> \<open>\<open>xs[i]\<close>: a negative index counts from the end, an index out of range raises\<close>
  "index_at xs i =
     (let j = (if i < 0 then i + int (length xs) else i)
      in if 0 \<le> j \<and> j < int (length xs) then Inr (xs ! nat j) else Inl IndexError)"

section \<open>The transliterator: \<open>decode_pinyin\<close> of convert.py\<close>

definition tone_marks :: "ustr \<rightharpoonup> ustr" where
  "tone_marks = map_of
     [([97],   [0x101, 0xE1, 0x1CE, 0xE0, 97]),
      ([101],  [0x113, 0xE9, 0x11B, 0xE8, 101]),
      ([105],  [0x12B, 0xED, 0x1D0, 0xEC, 105]),
      ([111],  [0x14D, 0xF3, 0x1D2, 0xF2, 111]),
      ([117],  [0x16B, 0xFA, 0x1D4, 0xF9, 117]),
      ([118],  [0x1D6, 0x1D8, 0x1DA, 0x1DC, 0xFC]),
      ([0xFC], [0x1D6, 0x1D8, 0x1DA, 0x1DC, 0xFC])]"

definition vowels :: ustr where
  "vowels = [97, 101, 105, 111, 117, 118, 0xFC]"

fun last_vowel :: "unicode_tables \<Rightarrow> ustr \<Rightarrow> nat \<Rightarrow> nat option" where
  \<comment> \<open>the loop \<open>for i in range(len(base) - 1, -1, -1)\<close>, entered with \<open>n = len(base)\<close>;
      \<open>None\<close> is the \<open>idx_to_mark = -1\<close> that the loop leaves when it never breaks\<close>
  "last_vowel U base 0 = None"
| "last_vowel U base (Suc i) =
     (if py_in (u_lower U [base ! i]) vowels then Some i else last_vowel U base i)"

definition idx_to_mark :: "unicode_tables \<Rightarrow> ustr \<Rightarrow> nat option" where
  "idx_to_mark U base =
     (if 97 \<in> set base then py_find 97 base
      else if 101 \<in> set base then py_find 101 base
      else if contains2 111 117 base then py_find 111 base
      else last_vowel U base (length base))"

definition tone_and_base :: "unicode_tables \<Rightarrow> ustr \<Rightarrow> py_error + int \<times> ustr" where
  \<comment> \<open>"Detect tone number": \<open>word[-1]\<close> raises on the empty string\<close>
  "tone_and_base U word =
     (case index_at word (- 1) of
        Inl e \<Rightarrow> Inl e
      | Inr c \<Rightarrow>
          if u_isdigit U c then
            (case u_int U c of Some tone \<Rightarrow> Inr (tone, butlast word) | None \<Rightarrow> Inr (5, word))
          else Inr (5, word))"

definition umlaut_rewrite :: "ustr \<Rightarrow> ustr" where
  \<comment> \<open>"Handle u: -> u-umlaut": the two \<open>replace\<close> calls, lower case first\<close>
  "umlaut_rewrite base = py_replace2 85 58 0xDC (py_replace2 117 58 0xFC base)"

definition decode_word :: "unicode_tables \<Rightarrow> ustr \<Rightarrow> py_error + ustr" where
  \<comment> \<open>the body of the loop over \<open>words\<close>, for a word that is not empty: what is appended\<close>
  "decode_word U word =
     (case tone_and_base U word of
        Inl e \<Rightarrow> Inl e
      | Inr (tone, base0) \<Rightarrow>
          let base = umlaut_rewrite base0 in
          if tone < 1 \<or> tone > 5 then Inr word
          else if tone = 5 then Inr base
          else
            (case idx_to_mark U base of
               None \<Rightarrow> Inr base
             | Some i \<Rightarrow>
                 (case index_at base (int i) of
                    Inl e \<Rightarrow> Inl e
                  | Inr char \<Rightarrow>
                      (case tone_marks (u_lower U [char]) of
                         None \<Rightarrow> Inr base
                       | Some marks \<Rightarrow>
                           (case index_at marks (tone - 1) of
                              Inl e \<Rightarrow> Inl e
                            | Inr replacement \<Rightarrow>
                                Inr (take i base
                                     @ (if u_isupper U [char] then u_upper U [replacement]
                                        else [replacement])
                                     @ drop (i + 1) base))))))"

fun decode_words :: "unicode_tables \<Rightarrow> ustr list \<Rightarrow> ustr list \<Rightarrow> py_error + ustr list" where
  \<comment> \<open>\<open>for word in words\<close>, with \<open>new_words\<close> as the accumulator\<close>
  "decode_words U [] new_words = Inr new_words"
| "decode_words U (word # words) new_words =
     (if word = [] then decode_words U words new_words
      else (case decode_word U word of
              Inl e \<Rightarrow> Inl e
            | Inr w \<Rightarrow> decode_words U words (new_words @ [w])))"

definition decode_pinyin :: "unicode_tables \<Rightarrow> ustr \<Rightarrow> py_error + ustr" where
  "decode_pinyin U s =
     (case decode_words U (py_split 32 s) [] of
        Inl e \<Rightarrow> Inl e
      | Inr new_words \<Rightarrow> Inr (py_join [32] new_words))"

definition invalid_tone_digit :: "unicode_tables \<Rightarrow> ustr \<Rightarrow> bool" where
  \<comment> \<open>a word whose last character is a digit that \<open>int\<close> reads as a value outside 1 to 5\<close>
  "invalid_tone_digit U w \<longleftrightarrow>
     w \<noteq> [] \<and> u_isdigit U (last w) \<and>
     (case u_int U (last w) of None \<Rightarrow> False | Some tone \<Rightarrow> tone < 1 \<or> 5 < tone)"

subsection \<open>The tables on the letters of pinyin\<close>

text \<open>
  What the interpreter's tables say about the ASCII digits, the fourteen vowel-class
  letters and the tone-marked vowels is the same in every Unicode version. It is written
  out here (\<open>latin_lower_ch\<close>, \<open>latin_upper_ch\<close>, \<open>latin_isupper_ch\<close>) and enters the theorems
  that need it as the hypothesis \<open>pinyin_tables\<close>. \<open>latin_tables\<close> is an instance for the worked
  examples: on strings of Basic Latin, Latin-1 and tone-marked vowels it computes what
  CPython computes; nothing is claimed of it on other code points.
\<close>

definition pinyin_capitals :: "cp list" where
  \<comment> \<open>the capitals of Latin Extended-A/B that carry a tone mark; the small letter is the next code point\<close>
  "pinyin_capitals =
     [0x100, 0x112, 0x11A, 0x12A, 0x14C, 0x16A, 0x1CD, 0x1CF, 0x1D1, 0x1D3, 0x1D5, 0x1D7, 0x1D9, 0x1DB]"

definition latin_isupper_ch :: "cp \<Rightarrow> bool" where
  "latin_isupper_ch c \<longleftrightarrow>
     (65 \<le> c \<and> c \<le> 90) \<or> (0xC0 \<le> c \<and> c \<le> 0xDE \<and> c \<noteq> 0xD7) \<or> c \<in> set pinyin_capitals"

definition latin_islower_ch :: "cp \<Rightarrow> bool" where
  "latin_islower_ch c \<longleftrightarrow>
     (97 \<le> c \<and> c \<le> 122) \<or> (0xDF \<le> c \<and> c \<le> 0xFF \<and> c \<noteq> 0xF7) \<or>
     c = 0xAA \<or> c = 0xB5 \<or> c = 0xBA \<or> (0 < c \<and> c - 1 \<in> set pinyin_capitals)"

definition latin_lower_ch :: "cp \<Rightarrow> cp" where
  "latin_lower_ch c =
     (if (65 \<le> c \<and> c \<le> 90) \<or> (0xC0 \<le> c \<and> c \<le> 0xDE \<and> c \<noteq> 0xD7) then c + 32
      else if c \<in> set pinyin_capitals then c + 1
      else c)"

definition latin_upper_ch :: "cp \<Rightarrow> cp" where
  "latin_upper_ch c =
     (if (97 \<le> c \<and> c \<le> 122) \<or> (0xE0 \<le> c \<and> c \<le> 0xFE \<and> c \<noteq> 0xF7) then c - 32
      else if 0 < c \<and> c - 1 \<in> set pinyin_capitals then c - 1
      else c)"

definition latin_tables :: unicode_tables where
  "latin_tables =
     \<lparr>u_lower = map latin_lower_ch,
      u_upper = map latin_upper_ch,
      u_isupper = (\<lambda>s. list_ex latin_isupper_ch s \<and> \<not> list_ex latin_islower_ch s),
      u_isdigit = (\<lambda>c. (48 \<le> c \<and> c \<le> 57) \<or> c = 0xB2 \<or> c = 0xB3 \<or> c = 0xB9),
      u_int = (\<lambda>c. if 48 \<le> c \<and> c \<le> 57 then Some (int c - 48) else None)\<rparr>"



definition vowel_class :: "cp \<Rightarrow> bool" where
  \<comment> \<open>a, e, i, o, u, v and u with diaeresis, small or capital\<close>
  "vowel_class c \<longleftrightarrow> c \<in> set [97, 101, 105, 111, 117, 118, 0xFC, 65, 69, 73, 79, 85, 86, 0xDC]"


definition lower_keeps_slashes :: "unicode_tables \<Rightarrow> bool" where
  \<comment> \<open>lowering neither makes nor removes a slash, and does not look across one\<close>
  "lower_keeps_slashes U \<longleftrightarrow>
     (\<forall>a b. u_lower U (a @ 47 # b) = u_lower U a @ 47 # u_lower U b) \<and>
     (\<forall>a. 47 \<notin> set a \<longrightarrow> 47 \<notin> set (u_lower U a))"

subsection \<open>The marking rule, in the words of the specification\<close>

text \<open>
  These definitions are not taken from the code. They say which position the priority rule
  of the specification selects, read without regard to case: the first \<open>a\<close>, else the first
  \<open>e\<close>, else the \<open>o\<close> of the first \<open>ou\<close>, else the last vowel-class character.
\<close>

definition fold_vowel :: "cp \<Rightarrow> cp" where
  \<comment> \<open>the small letter of a capital vowel; every other character is left as it is\<close>
  "fold_vowel c =
     (if c = 65 then 97 else if c = 69 then 101 else if c = 73 then 105 else if c = 79 then 111
      else if c = 85 then 117 else if c = 86 then 118 else if c = 0xDC then 0xFC else c)"

definition first_at :: "cp \<Rightarrow> ustr \<Rightarrow> nat \<Rightarrow> bool" where
  "first_at c xs i \<longleftrightarrow> i < length xs \<and> xs ! i = c \<and> c \<notin> set (take i xs)"

definition has_ou :: "ustr \<Rightarrow> bool" where
  "has_ou xs \<longleftrightarrow> (111, 117) \<in> set (zip xs (tl xs))"

definition first_ou :: "ustr \<Rightarrow> nat \<Rightarrow> bool" where
  "first_ou xs i \<longleftrightarrow>
     Suc i < length xs \<and> xs ! i = 111 \<and> xs ! Suc i = 117 \<and> \<not> has_ou (take (Suc i) xs)"

definition priority_rule :: "ustr \<Rightarrow> nat \<Rightarrow> bool" where
  "priority_rule base i \<longleftrightarrow>
     (if 97 \<in> set (map fold_vowel base) then first_at 97 (map fold_vowel base) i
      else if 101 \<in> set (map fold_vowel base) then first_at 101 (map fold_vowel base) i
      else if has_ou (map fold_vowel base) then first_ou (map fold_vowel base) i
      else i < length base \<and> vowel_class (base ! i) \<and>
           list_all (\<lambda>c. \<not> vowel_class c) (drop (Suc i) base))"




section \<open>Ingestion: \<open>parse_line\<close> of convert.py\<close>

text \<open>
  The pattern of \<open>parse_line\<close> is a sequence of literals and of repetitions of one character
  class, some of them captured. \<open>rx_match\<close> is the backtracking search of \<open>re.match\<close> for
  such a sequence: it is anchored at the start only, a greedy repetition tries the longest
  run first, a lazy one the shortest, and the first alternative for which the rest of the
  pattern matches wins. The result is the list of captured groups.
\<close>

datatype rx_item =
    Lit cp
  | Rep "cp \<Rightarrow> bool" nat bool bool  \<comment> \<open>class, least count, greedy, captured\<close>

fun first_match :: "(nat \<Rightarrow> 'a option) \<Rightarrow> nat list \<Rightarrow> 'a option" where
  "first_match f [] = None"
| "first_match f (n # ns) = (case f n of Some r \<Rightarrow> Some r | None \<Rightarrow> first_match f ns)"

fun rx_match :: "rx_item list \<Rightarrow> ustr \<Rightarrow> ustr list option" where
  "rx_match [] s = Some []"
| "rx_match (Lit c # r) s =
     (case s of [] \<Rightarrow> None | x # xs \<Rightarrow> if x = c then rx_match r xs else None)"
| "rx_match (Rep cls least greedy captured # r) s =
     (let most = length (takeWhile cls s);
          counts = (if greedy then rev [least..<Suc most] else [least..<Suc most])
      in first_match
           (\<lambda>n. case rx_match r (drop n s) of
                   None \<Rightarrow> None
                 | Some groups \<Rightarrow> Some ((if captured then [take n s] else []) @ groups))
           counts)"

definition rx_nonspace :: "cp \<Rightarrow> bool" where
  \<comment> \<open>\<open>\S\<close>\<close>
  "rx_nonspace c \<longleftrightarrow> \<not> py_isspace c"

definition rx_dot :: "cp \<Rightarrow> bool" where
  \<comment> \<open>\<open>.\<close> without the DOTALL flag: anything but a line feed\<close>
  "rx_dot c \<longleftrightarrow> c \<noteq> 10"

definition line_pattern :: "rx_item list" where
  \<comment> \<open>\<open>(\S+)\s+(\S+)\s+\[(.*?)\]\s+/(.*)/\<close>\<close>
  "line_pattern =
     [Rep rx_nonspace 1 True True, Rep py_isspace 1 True False,
      Rep rx_nonspace 1 True True, Rep py_isspace 1 True False,
      Lit 91, Rep rx_dot 0 False True, Lit 93, Rep py_isspace 1 True False,
      Lit 47, Rep rx_dot 0 True True, Lit 47]"

record parsed_line =
  pl_traditional :: ustr
  pl_simplified :: ustr
  pl_pinyin :: ustr
  pl_pinyin_clean :: ustr
  pl_pinyin_numbered :: ustr
  pl_pinyin_marks :: ustr
  pl_definitions :: ustr

definition parse_line :: "unicode_tables \<Rightarrow> ustr \<Rightarrow> py_error + parsed_line option" where
  \<comment> \<open>the tuple that \<open>parse_line\<close> returns, or \<open>None\<close> when the line does not match\<close>
  "parse_line U line =
     (case rx_match line_pattern line of
        Some [traditional, simplified, pinyin, definitions] \<Rightarrow>
          (let pinyin_clean =
                 u_lower U (filter (\<lambda>c. \<not> ((48 \<le> c \<and> c \<le> 57) \<or> py_isspace c)) pinyin);
               pinyin_numbered = u_lower U (filter (\<lambda>c. \<not> py_isspace c) pinyin)
           in case decode_pinyin U pinyin of
                Inl e \<Rightarrow> Inl e
              | Inr pinyin_marks \<Rightarrow>
                  Inr (Some \<lparr>pl_traditional = traditional, pl_simplified = simplified,
                             pl_pinyin = pinyin, pl_pinyin_clean = pinyin_clean,
                             pl_pinyin_numbered = pinyin_numbered,
                             pl_pinyin_marks = pinyin_marks,
                             pl_definitions = definitions\<rparr>))
      | _ \<Rightarrow> Inr None)"

section \<open>The search pipeline: \<open>search\<close> of app.py\<close>

subsection \<open>The data store\<close>

text \<open>
  A row of the table \<open>dictionary\<close>. \<open>has_examples\<close> and \<open>has_stroke\<close> hold 0 or 1 and are only
  tested for truth, so they are booleans. \<open>hsk_level\<close> is a natural number: ingestion stores
  the level of the HSK list (read by \<open>int\<close> from a string without a minus sign) or 0.
\<close>

record dict_row =
  row_id :: int
  traditional :: ustr
  simplified :: ustr
  pinyin :: ustr
  pinyin_clean :: ustr
  pinyin_numbered :: ustr
  pinyin_marks :: ustr
  definitions :: ustr
  has_examples :: bool
  has_stroke :: bool
  hsk_level :: nat

record sentence =
  chinese :: ustr
  english :: ustr

text \<open>
  SQLite is not part of the repository. The store is a parameter: what \<open>query_db\<close> returns
  for each statement of the source and its arguments, or the exception it raises. The rows
  of the full-text statement carry the extra column \<open>fts_rank\<close>. The sentence statement is
  \<open>ORDER BY RANDOM()\<close>; here the store answers the same every time it is asked.
\<close>

datatype sql =
    Exact_numbered  \<comment> \<open>\<open>WHERE traditional = ? OR simplified = ? OR pinyin_numbered = ?\<close>\<close>
  | Exact_clean     \<comment> \<open>\<open>WHERE traditional = ? OR simplified = ? OR pinyin_clean = ?\<close>\<close>
  | Starts_numbered \<comment> \<open>\<open>WHERE (traditional LIKE ? OR simplified LIKE ? OR pinyin_numbered LIKE ?)\<close>\<close>
  | Starts_clean    \<comment> \<open>\<open>WHERE (traditional LIKE ? OR simplified LIKE ? OR pinyin_clean LIKE ?)\<close>\<close>
  | Char_lookup     \<comment> \<open>\<open>WHERE simplified = ? AND length(simplified) = 1 LIMIT 1\<close>\<close>

record store =
  query_dict :: "sql \<Rightarrow> ustr list \<Rightarrow> py_error + dict_row list"
  query_fts :: "ustr \<Rightarrow> py_error + (dict_row \<times> real) list"
  query_sentences :: "ustr \<Rightarrow> nat \<Rightarrow> py_error + sentence list"

subsection \<open>Results\<close>

datatype match_type = Exact | Starts_with | Fts | Other

text \<open>
  An item of \<open>character_breakdown\<close>. A character found in the dictionary gives the whole row
  (\<open>ci_row\<close>) with \<open>short_definitions\<close> added; the fallback dictionary has the five keys only.
\<close>

record char_info =
  ci_simplified :: ustr
  ci_traditional :: ustr
  ci_pinyin_marks :: ustr
  ci_definitions :: ustr
  ci_short_definitions :: ustr
  ci_row :: "dict_row option"

text \<open>
  The dictionary that \<open>search\<close> builds for each hit: the row, and the keys added on the way.
  \<open>match_type\<close> is the key \<open>_match_type\<close> (\<open>None\<close> once it is popped), \<open>fts_rank\<close> is present
  for rows of the full-text statement only, \<open>traditional_variants\<close> is a set, held as a list
  without duplicates, and the keys not yet assigned are empty.
\<close>

record result = dict_row +
  match_type :: "match_type option"
  fts_rank :: "real option"
  traditional_variants :: "ustr list"
  definition_list :: "ustr list"
  examples :: "sentence list"
  character_breakdown :: "char_info list"

definition as_result :: "dict_row \<Rightarrow> match_type \<Rightarrow> real option \<Rightarrow> result" where
  \<comment> \<open>\<open>result = dict(row); result['_match_type'] = match_type\<close>\<close>
  "as_result row mt rank =
     \<lparr>row_id = row_id row, traditional = traditional row, simplified = simplified row,
      pinyin = pinyin row, pinyin_clean = pinyin_clean row,
      pinyin_numbered = pinyin_numbered row, pinyin_marks = pinyin_marks row,
      definitions = definitions row, has_examples = has_examples row,
      has_stroke = has_stroke row, hsk_level = hsk_level row,
      match_type = Some mt, fts_rank = rank, traditional_variants = [],
      definition_list = [], examples = [], character_breakdown = []\<rparr>"

subsection \<open>Matching\<close>

fun add_unique_results ::
  "(dict_row \<times> real option) list \<Rightarrow> match_type \<Rightarrow> result list \<times> int set \<Rightarrow> result list \<times> int set"
where
  "add_unique_results [] mt (all_results, seen_ids) = (all_results, seen_ids)"
| "add_unique_results ((row, rank) # new_rows) mt (all_results, seen_ids) =
     (if row_id row \<notin> seen_ids
      then add_unique_results new_rows mt
             (all_results @ [as_result row mt rank], insert (row_id row) seen_ids)
      else add_unique_results new_rows mt (all_results, seen_ids))"

definition fts_query :: "ustr \<Rightarrow> ustr" where
  \<comment> \<open>the query between double quotes\<close>
  "fts_query query = [34] @ query @ [34]"

definition matcher :: "unicode_tables \<Rightarrow> store \<Rightarrow> ustr \<Rightarrow> py_error + result list" where
  \<comment> \<open>from "Check if query has digits" to the end of "English FTS"\<close>
  "matcher U db query =
     (let has_tones = list_ex (u_isdigit U) query;
          clean_query = filter (\<lambda>c. c \<noteq> 32) (u_lower U query);
          clean_pinyin_no_tones = filter (\<lambda>c. \<not> (48 \<le> c \<and> c \<le> 57)) clean_query
      in case (if has_tones then query_dict db Exact_numbered [query, query, clean_query]
               else query_dict db Exact_clean [query, query, clean_pinyin_no_tones]) of
           Inl e \<Rightarrow> Inl e
         | Inr exact_rows \<Rightarrow>
             let st1 = add_unique_results (map (\<lambda>r. (r, None)) exact_rows) Exact ([], {}) in
             case (if has_tones
                   then query_dict db Starts_numbered
                          [query @ [37], query @ [37], clean_query @ [37]]
                   else query_dict db Starts_clean
                          [query @ [37], query @ [37], clean_pinyin_no_tones @ [37]]) of
               Inl e \<Rightarrow> Inl e
             | Inr start_rows \<Rightarrow>
                 let st2 = add_unique_results (map (\<lambda>r. (r, None)) start_rows) Starts_with st1;
                     st3 = (case query_fts db (fts_query query) of
                              Inr fts_rows \<Rightarrow>
                                add_unique_results (map (\<lambda>(r, k). (r, Some k)) fts_rows) Fts st2
                            | Inl e \<Rightarrow> st2)
                 in Inr (fst st3))"

subsection \<open>Merging\<close>

definition priority_map :: "match_type \<Rightarrow> nat" where
  "priority_map mt = (case mt of Exact \<Rightarrow> 0 | Starts_with \<Rightarrow> 1 | Fts \<Rightarrow> 2 | Other \<Rightarrow> 3)"

definition get_match_type :: "result \<Rightarrow> match_type" where
  \<comment> \<open>\<open>result.get('_match_type', 'other')\<close>\<close>
  "get_match_type r = (case match_type r of Some mt \<Rightarrow> mt | None \<Rightarrow> Other)"

definition merge_key :: "unicode_tables \<Rightarrow> result \<Rightarrow> ustr \<times> ustr" where
  "merge_key U r = (simplified r, u_lower U (pinyin_marks r))"

fun add_defs :: "ustr list \<Rightarrow> ustr list \<Rightarrow> ustr list" where
  \<comment> \<open>\<open>for d in new_defs: if d and d not in definition_list: definition_list.append(d)\<close>,
      with \<open>defs\<close> for \<open>existing['definition_list']\<close>\<close>
  "add_defs defs [] = defs"
| "add_defs defs (d # new_defs) =
     (if d \<noteq> [] \<and> d \<notin> set defs then add_defs (defs @ [d]) new_defs
      else add_defs defs new_defs)"

definition set_add :: "'a \<Rightarrow> 'a list \<Rightarrow> 'a list" where
  \<comment> \<open>\<open>s.add(x)\<close> on a set held as a list without duplicates\<close>
  "set_add x xs = (if x \<in> set xs then xs else xs @ [x])"

definition seed :: "result \<Rightarrow> result" where
  \<comment> \<open>the first hit of a key: \<open>merged_results[key] = result\<close> and its two new keys\<close>
  "seed r = r\<lparr>traditional_variants := [traditional r],
              definition_list := py_split 47 (definitions r)\<rparr>"

definition merge_into :: "result \<Rightarrow> result \<Rightarrow> result" where
  \<comment> \<open>the \<open>else\<close> branch: \<open>existing\<close> after \<open>result\<close> is merged into it\<close>
  "merge_into existing r =
     (let e1 = existing\<lparr>traditional_variants :=
                           set_add (traditional r) (traditional_variants existing)\<rparr>;
          e2 = e1\<lparr>definition_list := add_defs (definition_list e1) (py_split 47 (definitions r))\<rparr>;
          e3 = e2\<lparr>has_examples := has_examples e2 \<or> has_examples r\<rparr>;
          e4 = e3\<lparr>has_stroke := has_stroke e3 \<or> has_stroke r\<rparr>;
          l1 = hsk_level e4;
          l2 = hsk_level r;
          e5 = (if l1 = 0 then e4\<lparr>hsk_level := l2\<rparr>
                else if l2 \<noteq> 0 then e4\<lparr>hsk_level := min l1 l2\<rparr>
                else e4)
      in if priority_map (get_match_type r) < priority_map (get_match_type e5)
         then (let e6 = e5\<lparr>match_type := match_type r\<rparr>
               in case fts_rank r of Some k \<Rightarrow> e6\<lparr>fts_rank := Some k\<rparr> | None \<Rightarrow> e6)
         else e5)"

fun merge_results ::
  "unicode_tables \<Rightarrow> result list \<Rightarrow> ((ustr \<times> ustr) \<times> result) list \<Rightarrow> ((ustr \<times> ustr) \<times> result) list"
where
  \<comment> \<open>\<open>for result in all_results\<close>; the dictionary \<open>merged_results\<close> keeps insertion order\<close>
  "merge_results U [] merged_results = merged_results"
| "merge_results U (r # all_results) merged_results =
     (case map_of merged_results (merge_key U r) of
        None \<Rightarrow> merge_results U all_results (merged_results @ [(merge_key U r, seed r)])
      | Some existing \<Rightarrow>
          merge_results U all_results
            (AList.update (merge_key U r) (merge_into existing r) merged_results))"

definition group_entry :: "result list \<Rightarrow> result option" where
  \<comment> \<open>what the hits of one key, in the order they are met, are merged to: the first seeds
      the entry, the later ones are merged into it\<close>
  "group_entry hs = (case hs of [] \<Rightarrow> None | h # later \<Rightarrow> Some (foldl merge_into (seed h) later))"

definition finalize :: "result \<Rightarrow> result" where
  \<comment> \<open>"Convert back to list and finalize merged fields"\<close>
  "finalize entry =
     entry\<lparr>traditional := py_join (asc '' / '') (sort (traditional_variants entry)),
           definitions := py_join [47] (definition_list entry)\<rparr>"

subsection \<open>Scoring and sorting\<close>

definition score_result :: "unicode_tables \<Rightarrow> ustr \<Rightarrow> result \<Rightarrow> nat \<times> int \<times> nat \<times> nat \<times> real \<times> nat" where
  "score_result U query r =
     (let mt = get_match_type r;
          priority = priority_map mt;
          data_score = (if \<not> has_examples r then 2 else 0) + (if \<not> has_stroke r then 5 else 0);
          hsk_score = (if hsk_level r > 0 then hsk_level r else 10);
          rank = (case fts_rank r of Some k \<Rightarrow> k | None \<Rightarrow> 0);
          len = length (simplified r);
          exact_def_bonus =
            (if mt = Fts \<and>
                u_lower U query \<in> set (map py_strip (py_split 47 (u_lower U (definitions r))))
             then - 10 else 0)
      in (priority, exact_def_bonus, hsk_score, data_score, rank, len))"

definition sort_results :: "unicode_tables \<Rightarrow> ustr \<Rightarrow> result list \<Rightarrow> result list" where
  \<comment> \<open>\<open>all_results.sort(key=score_result)\<close>: a stable sort, as \<open>sort_key\<close> is\<close>
  "sort_results U query all_results = sort_key (score_result U query) all_results"

subsection \<open>Pagination\<close>

definition py_slice :: "'a list \<Rightarrow> int \<Rightarrow> int \<Rightarrow> 'a list" where
  \<comment> \<open>\<open>xs[start:end]\<close>: a negative bound counts from the end, then both are clamped\<close>
  "py_slice xs start end =
     (let n = int (length xs);
          lo = max 0 (min n (if start < 0 then start + n else start));
          hi = max 0 (min n (if end < 0 then end + n else end))
      in take (nat (hi - lo)) (drop (nat lo) xs))"

definition RESULTS_PER_PAGE :: int where
  "RESULTS_PER_PAGE = 20"

definition paginate :: "'a list \<Rightarrow> int \<Rightarrow> 'a list \<times> int \<times> int" where
  \<comment> \<open>the paginated results, \<open>total_pages\<close> and \<open>total_results\<close>\<close>
  "paginate all_results page =
     (let total_results = int (length all_results);
          total_pages = (total_results + RESULTS_PER_PAGE - 1) div RESULTS_PER_PAGE;
          start_idx = (page - 1) * RESULTS_PER_PAGE;
          end_idx = start_idx + RESULTS_PER_PAGE
      in (py_slice all_results start_idx end_idx, total_pages, total_results))"

subsection \<open>Enrichment\<close>

definition fallback :: "cp \<Rightarrow> char_info" where
  \<comment> \<open>"Fallback for characters not found as single entries"\<close>
  "fallback char =
     \<lparr>ci_simplified = [char], ci_traditional = [char], ci_pinyin_marks = [],
      ci_definitions = asc ''N/A'', ci_short_definitions = asc ''N/A'', ci_row = None\<rparr>"

definition found :: "dict_row \<Rightarrow> char_info" where
  \<comment> \<open>\<open>char_info = dict(char_data)\<close> with \<open>short_definitions\<close>, the first three glosses\<close>
  "found char_data =
     \<lparr>ci_simplified = simplified char_data, ci_traditional = traditional char_data,
      ci_pinyin_marks = pinyin_marks char_data, ci_definitions = definitions char_data,
      ci_short_definitions = py_join [47] (take 3 (py_split 47 (definitions char_data))),
      ci_row = Some char_data\<rparr>"

fun breakdown ::
  "store \<Rightarrow> ustr \<Rightarrow> (cp \<rightharpoonup> char_info) \<Rightarrow> char_info list \<Rightarrow>
     py_error + char_info list \<times> (cp \<rightharpoonup> char_info)"
where
  \<comment> \<open>\<open>for i, char in enumerate(char_to_search)\<close>; \<open>one=True\<close> takes the first row or \<open>None\<close>\<close>
  "breakdown db [] char_cache items = Inr (items, char_cache)"
| "breakdown db (char # chars) char_cache items =
     (case char_cache char of
        Some info \<Rightarrow> breakdown db chars char_cache (items @ [info])
      | None \<Rightarrow>
          (case query_dict db Char_lookup [[char]] of
             Inl e \<Rightarrow> Inl e
           | Inr [] \<Rightarrow> breakdown db chars char_cache (items @ [fallback char])
           | Inr (char_data # rv) \<Rightarrow>
               breakdown db chars (char_cache(char \<mapsto> found char_data))
                 (items @ [found char_data])))"

fun enrich ::
  "store \<Rightarrow> result list \<Rightarrow> (cp \<rightharpoonup> char_info) \<Rightarrow> py_error + result list"
where
  \<comment> \<open>\<open>for result in paginated_results\<close>; the results are returned as they are after the loop\<close>
  "enrich db [] char_cache = Inr []"
| "enrich db (r # paginated_results) char_cache =
     (case query_sentences db ([37] @ simplified r @ [37]) 3 of
        Inl e \<Rightarrow> Inl e
      | Inr exs \<Rightarrow>
          (case (if length (simplified r) \<ge> 2 then breakdown db (simplified r) char_cache []
                 else Inr ([], char_cache)) of
             Inl e \<Rightarrow> Inl e
           | Inr (items, char_cache') \<Rightarrow>
               (case enrich db paginated_results char_cache' of
                  Inl e \<Rightarrow> Inl e
                | Inr rest \<Rightarrow>
                    Inr (r\<lparr>examples := exs, character_breakdown := items,
                           match_type := None\<rparr> # rest))))"

subsection \<open>The request\<close>

record results_page =
  rp_query :: ustr
  rp_results :: "result list"
  rp_page :: int
  rp_total_pages :: int
  rp_total_results :: int
  rp_results_per_page :: int

datatype response = Index_page | Results_page results_page

definition ranked :: "unicode_tables \<Rightarrow> ustr \<Rightarrow> result list \<Rightarrow> result list" where
  \<comment> \<open>from "Merging logic" to the sort: the ordered list of merged results\<close>
  "ranked U query all_results =
     sort_results U query (map (\<lambda>(key, entry). finalize entry) (merge_results U all_results []))"

definition search :: "unicode_tables \<Rightarrow> store \<Rightarrow> ustr \<Rightarrow> int \<Rightarrow> py_error + response" where
  \<comment> \<open>\<open>q\<close> and \<open>page\<close> are the request arguments, \<open>page\<close> already read as an integer\<close>
  "search U db q page =
     (let query = py_strip q in
      if query = [] then Inr Index_page
      else
        (case matcher U db query of
           Inl e \<Rightarrow> Inl e
         | Inr all_results \<Rightarrow>
             (case paginate (ranked U query all_results) page of
                (paginated_results, total_pages, total_results) \<Rightarrow>
                  (case enrich db paginated_results Map.empty of
                     Inl e \<Rightarrow> Inl e
                   | Inr rs \<Rightarrow>
                       Inr (Results_page
                              \<lparr>rp_query = query, rp_results = rs, rp_page = page,
                               rp_total_pages = total_pages,
                               rp_total_results = total_results,
                               rp_results_per_page = RESULTS_PER_PAGE\<rparr>)))))"

subsection \<open>Enrichment, in the words of the specification\<close>

definition expected_item :: "store \<Rightarrow> cp \<Rightarrow> char_info" where
  \<comment> \<open>not from the code: the breakdown item the specification asks for, the dictionary entry
      of the character with its first three glosses, or the placeholder when the store has
      no single-character entry\<close>
  "expected_item db char =
     (case query_dict db Char_lookup [[char]] of
        Inr (char_data # rv) \<Rightarrow> found char_data
      | _ \<Rightarrow> fallback char)"

definition cache_ok :: "store \<Rightarrow> (cp \<rightharpoonup> char_info) \<Rightarrow> bool" where
  \<comment> \<open>the invariant of \<open>char_cache\<close>: it holds what the store answers\<close>
  "cache_ok db char_cache \<longleftrightarrow>
     (\<forall>c info. char_cache c = Some info \<longrightarrow> info = expected_item db c)"

subsection \<open>Rows for the worked examples\<close>

definition example_row :: "int \<Rightarrow> ustr \<Rightarrow> ustr \<Rightarrow> ustr \<Rightarrow> dict_row" where
  \<comment> \<open>a row for the character U+597D, pinyin \<open>hao3\<close>, with the given id, traditional form,
      definitions and pinyin with tone marks\<close>
  "example_row i trad defs marks =
     \<lparr>row_id = i, traditional = trad, simplified = [0x597D], pinyin = asc ''hao3'',
      pinyin_clean = asc ''hao'', pinyin_numbered = asc ''hao3'', pinyin_marks = marks,
      definitions = defs, has_examples = True, has_stroke = True, hsk_level = 1\<rparr>"

definition example_store :: store where
  \<comment> \<open>a store with one entry for U+597D, found by the exact and by the prefix statement and
      as a single character; its full-text statement raises, it has no sentences\<close>
  "example_store =
     \<lparr>query_dict =
        (\<lambda>stmt args.
           case stmt of
             Exact_clean \<Rightarrow> Inr [example_row 1 [0x597D] (asc ''good/well/fine/OK'') [104, 0x1CE, 111]]
           | Starts_clean \<Rightarrow> Inr [example_row 1 [0x597D] (asc ''good/well/fine/OK'') [104, 0x1CE, 111]]
           | Char_lookup \<Rightarrow>
               (if args = [[0x597D]]
                then Inr [example_row 1 [0x597D] (asc ''good/well/fine/OK'') [104, 0x1CE, 111]]
                else Inr [])
           | _ \<Rightarrow> Inr []),
      query_fts = (\<lambda>q. Inl DatabaseError),
      query_sentences = (\<lambda>pattern limit. Inr [])\<rparr>"

section \<open>Properties of the transliterator\<close>

lemma index_at_last: "w \<noteq> [] \<Longrightarrow> index_at w (- 1) = Inr (last w)"
  by (simp add: index_at_def last_conv_nth nat_diff_distrib' of_nat_diff) 

lemma index_at_nat: "i < length xs \<Longrightarrow> index_at xs (int i) = Inr (xs ! i)"
  by (simp add: index_at_def)

lemma py_find_Some:
  "py_find c xs = Some i \<Longrightarrow> i < length xs \<and> xs ! i = c \<and> (\<forall>j<i. xs ! j \<noteq> c)"
proof (induction xs arbitrary: i)
  case Nil
  then show ?case by simp
next
  case (Cons x xs)
  show ?case
  proof (cases "x = c")
    case True
    with Cons.prems show ?thesis by simp
  next
    case False
    with Cons.prems obtain k where k: "py_find c xs = Some k" "i = Suc k" by auto
    from Cons.IH[OF k(1)] have "k < length xs \<and> xs ! k = c \<and> (\<forall>j<k. xs ! j \<noteq> c)" .
    with False k(2) show ?thesis by (auto simp: nth_Cons split: nat.splits)
  qed
qed


lemma last_vowel_Some:
  "last_vowel U b n = Some i \<Longrightarrow>
     i < n \<and> py_in (u_lower U [b ! i]) vowels \<and> (\<forall>j. i < j \<and> j < n \<longrightarrow> \<not> py_in (u_lower U [b ! j]) vowels)"
proof (induction n)
  case 0
  then show ?case by simp
next
  case (Suc n)
  show ?case
  proof (cases "py_in (u_lower U [b ! n]) vowels")
    case True
    with Suc.prems show ?thesis by auto
  next
    case False
    with Suc.prems have "last_vowel U b n = Some i" by simp
    from Suc.IH[OF this] False show ?thesis by (auto simp: less_Suc_eq)
  qed
qed


lemma idx_to_mark_less: "idx_to_mark U b = Some i \<Longrightarrow> i < length b"
  unfolding idx_to_mark_def
  by (auto split: if_splits dest!: py_find_Some last_vowel_Some)

lemma tone_marks_length: "tone_marks v = Some m \<Longrightarrow> length m = 5"
  by (auto simp: tone_marks_def split: if_splits)

lemma tone_and_base_nonempty: "w \<noteq> [] \<Longrightarrow> \<exists>t b. tone_and_base U w = Inr (t, b)"
  by (auto simp: tone_and_base_def index_at_last split: option.splits)

lemma decode_word_total: "w \<noteq> [] \<Longrightarrow> \<exists>out. decode_word U w = Inr out"
proof -
  assume "w \<noteq> []"
  then obtain t b where tb: "tone_and_base U w = Inr (t, b)"
    using tone_and_base_nonempty by blast
  show ?thesis
    unfolding decode_word_def tb
    by (auto simp: Let_def index_at_nat index_at_def split: option.splits sum.splits
        dest!: idx_to_mark_less tone_marks_length)
qed

lemma decode_word_invalid: "invalid_tone_digit U w \<Longrightarrow> decode_word U w = Inr w"
  by (auto simp: invalid_tone_digit_def decode_word_def tone_and_base_def index_at_last
      split: option.splits)

lemma decode_words_aligned:
  "\<exists>outs. decode_words U ws acc = Inr (acc @ outs) \<and>
          list_all2 (\<lambda>w out. decode_word U w = Inr out) (filter (\<lambda>w. w \<noteq> []) ws) outs"
proof (induction ws arbitrary: acc)
  case Nil
  then show ?case by simp
next
  case (Cons w ws)
  show ?case
  proof (cases "w = []")
    case True
    with Cons.IH[of acc] show ?thesis by simp
  next
    case False
    then obtain out where out: "decode_word U w = Inr out" using decode_word_total by blast
    from Cons.IH[of "acc @ [out]"] obtain outs where
      "decode_words U ws (acc @ [out]) = Inr ((acc @ [out]) @ outs)"
      "list_all2 (\<lambda>w out. decode_word U w = Inr out) (filter (\<lambda>w. w \<noteq> []) ws) outs" by blast
    with False out show ?thesis by (intro exI[of _ "out # outs"]) simp
  qed
qed

lemma decode_pinyin_aligned:
  "\<exists>outs. decode_pinyin U s = Inr (py_join [32] outs) \<and>
          list_all2 (\<lambda>w out. decode_word U w = Inr out) (filter (\<lambda>w. w \<noteq> []) (py_split 32 s)) outs"
  using decode_words_aligned[of U "py_split 32 s" "[]"] by (auto simp: decode_pinyin_def)

text \<open>
  Claim C4. Whatever the Unicode tables are, \<open>decode_pinyin\<close> returns a value for every
  input string (it never raises); the value is the non-empty words of the input, each
  decoded, joined by single spaces; and a word whose last character is a digit that \<open>int\<close>
  reads as a tone outside 1 to 5 (0, 6, 7, 8 or 9, in any script) is emitted exactly as it
  came in: the digit stays and \<open>u:\<close> is not rewritten.
\<close>

theorem invalid_tone_passthrough:
  "\<exists>outs. decode_pinyin U s = Inr (py_join [32] outs) \<and>
      list_all2 (\<lambda>w out. decode_word U w = Inr out \<and> (invalid_tone_digit U w \<longrightarrow> out = w))
        (filter (\<lambda>w. w \<noteq> []) (py_split 32 s)) outs"
proof -
  obtain outs where o: "decode_pinyin U s = Inr (py_join [32] outs)"
    "list_all2 (\<lambda>w out. decode_word U w = Inr out) (filter (\<lambda>w. w \<noteq> []) (py_split 32 s)) outs"
    using decode_pinyin_aligned by blast
  from o(2) have "list_all2 (\<lambda>w out. decode_word U w = Inr out \<and> (invalid_tone_digit U w \<longrightarrow> out = w))
        (filter (\<lambda>w. w \<noteq> []) (py_split 32 s)) outs"
    by (rule list_all2_mono) (auto simp: decode_word_invalid)
  with o(1) show ?thesis by blast
qed

lemmas latin_defs = latin_tables_def latin_lower_ch_def latin_upper_ch_def latin_isupper_ch_def
  latin_islower_ch_def pinyin_capitals_def

lemmas decode_defs = asc_def decode_pinyin_def decode_word_def tone_and_base_def index_at_def
  idx_to_mark_def tone_marks_def vowels_def umlaut_rewrite_def latin_defs

theorem invalid_tone_passthrough_witness:
  "invalid_tone_digit latin_tables (asc ''lu:6'') \<and> invalid_tone_digit latin_tables (asc ''hao0'') \<and>
   decode_pinyin latin_tables (asc ''lu:6 ni3 hao0'') = Inr (asc ''lu:6 n'' @ [0x1D0] @ asc '' hao0'')"
proof -
  have sp: "filter (\<lambda>w. w \<noteq> []) (py_split 32 (asc ''lu:6 ni3 hao0'')) = [asc ''lu:6'', asc ''ni3'', asc ''hao0'']"
    by (simp add: asc_def)
  have inv: "invalid_tone_digit latin_tables (asc ''lu:6'')" "invalid_tone_digit latin_tables (asc ''hao0'')"
    by (simp_all add: asc_def invalid_tone_digit_def latin_tables_def)
  have ni: "decode_word latin_tables (asc ''ni3'') = Inr (asc ''n'' @ [0x1D0])"
    by (simp add: decode_defs)
  from invalid_tone_passthrough[of latin_tables "asc ''lu:6 ni3 hao0''"] obtain outs where
    o: "decode_pinyin latin_tables (asc ''lu:6 ni3 hao0'') = Inr (py_join [32] outs)"
     "list_all2 (\<lambda>w out. decode_word latin_tables w = Inr out \<and> (invalid_tone_digit latin_tables w \<longrightarrow> out = w))
        [asc ''lu:6'', asc ''ni3'', asc ''hao0''] outs"
    unfolding sp by blast
  from o(2) inv ni have "outs = [asc ''lu:6'', asc ''n'' @ [0x1D0], asc ''hao0'']"
    by (auto simp: list_all2_Cons1)
  with o(1) inv show ?thesis by (simp add: asc_def)
qed

subsection \<open>The marking rule\<close>



































text \<open>
  The tests \<open>'a' in base\<close>, \<open>'e' in base\<close> and \<open>'ou' in base\<close> of the code compare with the small
  letters only, whereas its last test lowers each character first; and for \<open>ou\<close> it marks the
  first \<open>o\<close> of the syllable, not the \<open>o\<close> of \<open>ou\<close>. A capital A, E, O or U, or a second \<open>o\<close>,
  can therefore lead the code to another vowel than the rule read without regard to case:
\<close>

lemma capital_vowel_example:
  "decode_pinyin latin_tables (asc ''Ao4'') = Inr [65, 0xF2] \<and>
   priority_rule (asc ''Ao'') 0 \<and> \<not> priority_rule (asc ''Ao'') 1"
  by (simp add: decode_defs priority_rule_def first_at_def fold_vowel_def)



section \<open>Properties of pagination\<close>

lemma ceiling_div_20: "(int n + 20 - 1) div 20 = \<lceil>real n / 20\<rceil>"
proof -
  define q where "q = (int n + 19) div 20"
  have "int n + 19 = 20 * q + (int n + 19) mod 20"
    unfolding q_def by (simp only: mult_div_mod_eq)
  moreover have "0 \<le> (int n + 19) mod 20" "(int n + 19) mod 20 < 20"
    by simp_all
  ultimately have a: "20 * q \<le> int n + 19" and b: "int n + 19 < 20 * q + 20"
    by linarith+
  from a have "20 * q - 20 < int n" by linarith
  then have "real_of_int (20 * q - 20) < real_of_int (int n)" by (simp only: of_int_less_iff)
  then have lo: "real_of_int q - 1 < real n / 20" by simp
  from b have "int n \<le> 20 * q" by linarith
  then have "real_of_int (int n) \<le> real_of_int (20 * q)" by (simp only: of_int_le_iff)
  then have hi: "real n / 20 \<le> real_of_int q" by simp
  from lo hi have "\<lceil>real n / 20\<rceil> = q" by (rule ceiling_unique)
  then show ?thesis by (simp add: q_def)
qed

lemma py_slice_eq:
  "py_slice xs s e =
     take (nat (max 0 (min (int (length xs)) (if e < 0 then e + int (length xs) else e))
                - max 0 (min (int (length xs)) (if s < 0 then s + int (length xs) else s))))
          (drop (nat (max 0 (min (int (length xs)) (if s < 0 then s + int (length xs) else s)))) xs)"
  by (simp only: py_slice_def Let_def)

lemma py_slice_page:
  assumes "0 \<le> start"
  shows "py_slice xs start (start + 20) = take 20 (drop (nat start) xs)"
proof (cases "start \<le> int (length xs)")
  case True
  let ?n = "int (length xs)"
  from True assms have lo: "max 0 (min ?n (if start < 0 then start + ?n else start)) = start"
    by simp
  from assms have hi: "max 0 (min ?n (if start + 20 < 0 then start + 20 + ?n else start + 20))
      = min ?n (start + 20)" by simp
  have "py_slice xs start (start + 20) = take (nat (min ?n (start + 20) - start)) (drop (nat start) xs)"
    unfolding py_slice_eq lo hi ..
  also have "\<dots> = take 20 (drop (nat start) xs)"
  proof (cases "start + 20 \<le> ?n")
    case True
    then have "min ?n (start + 20) - start = 20" by simp
    then show ?thesis by simp
  next
    case False
    then have "min ?n (start + 20) - start = ?n - start" by simp
    moreover have "length (drop (nat start) xs) = nat (?n - start)" using assms by simp
    moreover from False have "nat (?n - start) \<le> 20" by simp
    ultimately show ?thesis by simp
  qed
  finally show ?thesis .
next
  case False
  let ?n = "int (length xs)"
  from False assms have "drop (nat start) xs = []" by simp
  moreover from False assms have "max 0 (min ?n (if start < 0 then start + ?n else start)) = ?n"
    by simp
  ultimately show ?thesis unfolding py_slice_eq by simp
qed

lemma paginate_eq:
  "paginate xs page =
     (py_slice xs ((page - 1) * 20) ((page - 1) * 20 + 20), (int (length xs) + 20 - 1) div 20,
      int (length xs))"
  by (simp only: paginate_def Let_def RESULTS_PER_PAGE_def)

lemma paginate_page:
  assumes "1 \<le> page"
  shows "paginate xs page =
           (take 20 (drop (nat ((page - 1) * 20)) xs), \<lceil>real (length xs) / 20\<rceil>, int (length xs))"
proof -
  from assms have "0 \<le> (page - 1) * 20" by simp
  then show ?thesis
    unfolding paginate_eq by (simp only: py_slice_page ceiling_div_20)
qed

lemma beyond_last_page:
  assumes "\<lceil>real (length xs) / 20\<rceil> < page"
  shows "drop (nat ((page - 1) * 20)) xs = []"
proof -
  have "real (length xs) / 20 \<le> real_of_int \<lceil>real (length xs) / 20\<rceil>" by (rule le_of_int_ceiling)
  also from assms have "\<dots> \<le> real_of_int (page - 1)" by simp
  finally have "real (length xs) \<le> real_of_int ((page - 1) * 20)" by simp
  then have "real_of_int (int (length xs)) \<le> real_of_int ((page - 1) * 20)" by simp
  then have "int (length xs) \<le> (page - 1) * 20" by (simp only: of_int_le_iff)
  then show ?thesis by simp
qed

text \<open>
  Claim C6. For every list of ordered results and every page number of at least 1, the page
  is the twenty results from index \<open>(page - 1) * 20\<close> on (fewer at the end of the list),
  \<open>total_pages\<close> is the ceiling of \<open>total_results / 20\<close>, and a page beyond \<open>total_pages\<close> is
  the empty list: slicing does not raise.
\<close>

theorem pagination_total_pages:
  assumes "1 \<le> page"
  shows "paginate xs page =
           (take 20 (drop (nat ((page - 1) * 20)) xs), \<lceil>real (length xs) / 20\<rceil>, int (length xs)) \<and>
         (\<lceil>real (length xs) / 20\<rceil> < page \<longrightarrow> fst (paginate xs page) = [])"
proof -
  have "fst (paginate xs page) = []" if "\<lceil>real (length xs) / 20\<rceil> < page"
    unfolding paginate_page[OF assms] using beyond_last_page[OF that] by simp
  with paginate_page[OF assms] show ?thesis by blast
qed

theorem pagination_total_pages_witness:
  "(1::int) \<le> 3 \<and>
   paginate (replicate 41 (0::nat)) 3 = ([0], 3, 41) \<and>
   \<lceil>real (length (replicate 41 (0::nat))) / 20\<rceil> < 4 \<and> fst (paginate (replicate 41 (0::nat)) 4) = []"
proof -
  have c: "\<lceil>real (length (replicate 41 (0::nat))) / 20\<rceil> = 3"
    by (simp add: ceiling_eq_iff)
  have h3: "(1::int) \<le> 3" and h4: "(1::int) \<le> 4" by simp_all
  from pagination_total_pages[OF h3, of "replicate 41 (0::nat)"]
  have "paginate (replicate 41 (0::nat)) 3 = ([0], 3, 41)"
    unfolding c by simp
  moreover from pagination_total_pages[OF h4, of "replicate 41 (0::nat)"]
  have "fst (paginate (replicate 41 (0::nat)) 4) = []"
    unfolding c by simp
  ultimately show ?thesis using c by simp
qed

text \<open>
  Claim C10. Below the documented range slicing does not raise either, but the result depends
  on the page: page 0 always gives the empty list, while page -1 gives the results from
  index \<open>max(0, n - 40)\<close> up to \<open>n - 20\<close>, which is not empty exactly when there are more
  than 20 results.
\<close>

theorem pagination_below_first_page:
  "fst (paginate xs 0) = [] \<and>
   fst (paginate xs (- 1)) = take (length xs - 20 - (length xs - 40)) (drop (length xs - 40) xs) \<and>
   (fst (paginate xs (- 1)) \<noteq> [] \<longleftrightarrow> 20 < length xs)"
proof -
  let ?n = "int (length xs)"
  have p0: "fst (paginate xs 0) = []"
    unfolding paginate_eq py_slice_eq by simp
  have lo: "nat (max 0 (min ?n (if (- 1 - 1) * 20 < (0::int) then (- 1 - 1) * 20 + ?n else (- 1 - 1) * 20)))
              = length xs - 40" by simp
  have hi: "nat (max 0 (min ?n (if (- 1 - 1) * 20 + 20 < (0::int) then (- 1 - 1) * 20 + 20 + ?n
                                else (- 1 - 1) * 20 + 20))
               - max 0 (min ?n (if (- 1 - 1) * 20 < (0::int) then (- 1 - 1) * 20 + ?n else (- 1 - 1) * 20)))
              = length xs - 20 - (length xs - 40)" by simp
  have p1: "fst (paginate xs (- 1)) = take (length xs - 20 - (length xs - 40)) (drop (length xs - 40) xs)"
    unfolding paginate_eq py_slice_eq lo hi by simp
  have "(take (length xs - 20 - (length xs - 40)) (drop (length xs - 40) xs) \<noteq> []) \<longleftrightarrow> 20 < length xs"
    by auto
  with p0 p1 show ?thesis by simp
qed

theorem pagination_below_first_page_witness:
  "fst (paginate [1 ..< 22] 0) = ([] :: nat list) \<and> fst (paginate [1 ..< 22] (- 1)) = [1::nat]"
  using pagination_below_first_page[of "[1 ..< 22]"] by (simp add: upt_rec)

section \<open>Properties of merging\<close>

lemma merge_into_match_type:
  "match_type (merge_into existing r) =
     (if priority_map (get_match_type r) < priority_map (get_match_type existing)
      then match_type r else match_type existing)"
  by (simp add: merge_into_def Let_def get_match_type_def split: option.splits)

lemma merge_into_fts_rank:
  "fts_rank (merge_into existing r) =
     (if priority_map (get_match_type r) < priority_map (get_match_type existing)
      then (case fts_rank r of Some k \<Rightarrow> Some k | None \<Rightarrow> fts_rank existing)
      else fts_rank existing)"
  by (simp add: merge_into_def Let_def get_match_type_def split: option.splits)

lemma add_unique_results_wf:
  assumes "\<forall>r\<in>set (fst st). get_match_type r = Fts \<longrightarrow> fts_rank r \<noteq> None"
    and "mt = Fts \<longrightarrow> (\<forall>(row, rank)\<in>set rows. rank \<noteq> None)"
  shows "\<forall>r\<in>set (fst (add_unique_results rows mt st)). get_match_type r = Fts \<longrightarrow> fts_rank r \<noteq> None"
  using assms
proof (induction rows mt st rule: add_unique_results.induct)
  case (1 mt all_results seen_ids)
  then show ?case by simp
next
  case (2 row rank new_rows mt all_results seen_ids)
  show ?case
  proof (cases "row_id row \<notin> seen_ids")
    case True
    have "\<forall>r\<in>set (fst (all_results @ [as_result row mt rank], insert (row_id row) seen_ids)).
            get_match_type r = Fts \<longrightarrow> fts_rank r \<noteq> None"
      using "2.prems" by (auto simp: as_result_def get_match_type_def)
    moreover have "mt = Fts \<longrightarrow> (\<forall>(row, rank)\<in>set new_rows. rank \<noteq> None)"
      using "2.prems"(2) by auto
    ultimately show ?thesis using "2.IH"(1)[OF True] True by simp
  next
    case False
    have "mt = Fts \<longrightarrow> (\<forall>(row, rank)\<in>set new_rows. rank \<noteq> None)"
      using "2.prems"(2) by auto
    with "2.IH"(2)[OF False] "2.prems"(1) False show ?thesis by simp
  qed
qed

lemma matcher_hits_ranked:
  assumes "matcher U db query = Inr hits"
  shows "\<forall>r\<in>set hits. get_match_type r = Fts \<longrightarrow> fts_rank r \<noteq> None"
proof -
  have w0: "\<forall>r\<in>set (fst (([]::result list), ({}::int set))). get_match_type r = Fts \<longrightarrow> fts_rank r \<noteq> None"
    by simp
  have w1: "\<forall>r\<in>set (fst (add_unique_results (map (\<lambda>r. (r, None)) rows) Exact ([], {}))).
              get_match_type r = Fts \<longrightarrow> fts_rank r \<noteq> None" for rows
    by (rule add_unique_results_wf[OF w0]) simp
  have w2: "\<forall>r\<in>set (fst (add_unique_results (map (\<lambda>r. (r, None)) rows') Starts_with
                (add_unique_results (map (\<lambda>r. (r, None)) rows) Exact ([], {})))).
              get_match_type r = Fts \<longrightarrow> fts_rank r \<noteq> None" for rows rows'
    by (rule add_unique_results_wf[OF w1]) simp
  have w3: "\<forall>r\<in>set (fst (add_unique_results (map (\<lambda>(r, k). (r, Some k)) frows) Fts
                (add_unique_results (map (\<lambda>r. (r, None)) rows') Starts_with
                (add_unique_results (map (\<lambda>r. (r, None)) rows) Exact ([], {}))))).
              get_match_type r = Fts \<longrightarrow> fts_rank r \<noteq> None" for rows rows' frows
    by (rule add_unique_results_wf[OF w2]) auto
  from assms show ?thesis
    unfolding matcher_def Let_def
    by (auto split: sum.splits if_splits simp del: add_unique_results.simps
        dest: w2[rule_format] w3[rule_format])
qed

text \<open>
  Claim C8. When a hit \<open>r\<close> is merged into the entry \<open>existing\<close> of its key, the merged
  entry has the lower of the two priorities. If \<open>r\<close> is strictly better, its match type
  replaces the old one and, when that type is \<open>fts\<close>, its relevance rank is adopted. If
  not (the existing entry is better, or the priorities are equal), the earlier match type
  and its rank are kept. Hits of the full-text strategy always carry a rank
  (\<open>matcher_hits_ranked\<close>), which is the hypothesis.
\<close>

theorem merge_match_type_precedence:
  assumes "get_match_type r = Fts \<longrightarrow> fts_rank r \<noteq> None"
  shows "priority_map (get_match_type (merge_into existing r)) =
           min (priority_map (get_match_type existing)) (priority_map (get_match_type r)) \<and>
         (priority_map (get_match_type r) < priority_map (get_match_type existing) \<longrightarrow>
            match_type (merge_into existing r) = match_type r \<and>
            (get_match_type r = Fts \<longrightarrow> fts_rank (merge_into existing r) = fts_rank r)) \<and>
         (\<not> priority_map (get_match_type r) < priority_map (get_match_type existing) \<longrightarrow>
            match_type (merge_into existing r) = match_type existing \<and>
            fts_rank (merge_into existing r) = fts_rank existing)"
proof (cases "priority_map (get_match_type r) < priority_map (get_match_type existing)")
  case True
  then have mt: "match_type (merge_into existing r) = match_type r"
    by (simp add: merge_into_match_type)
  then have "get_match_type (merge_into existing r) = get_match_type r"
    by (simp add: get_match_type_def)
  moreover have "fts_rank (merge_into existing r) = fts_rank r" if "get_match_type r = Fts"
    using that assms True by (auto simp: merge_into_fts_rank)
  ultimately show ?thesis using True mt by (simp add: min_def)
next
  case False
  then have mt: "match_type (merge_into existing r) = match_type existing"
    by (simp add: merge_into_match_type)
  then have "get_match_type (merge_into existing r) = get_match_type existing"
    by (simp add: get_match_type_def)
  with False mt show ?thesis by (simp add: merge_into_fts_rank min_def)
qed

theorem merge_match_type_precedence_witness:
  "get_match_type (as_result (example_row 2 [0x597D] (asc ''good'') (asc ''hao'')) Fts (Some (- 3))) = Fts \<and>
   fts_rank (as_result (example_row 2 [0x597D] (asc ''good'') (asc ''hao'')) Fts (Some (- 3))) \<noteq> None \<and>
   match_type (merge_into (as_result (example_row 1 [0x597D] (asc ''fine'') (asc ''hao'')) Other None)
                 (as_result (example_row 2 [0x597D] (asc ''good'') (asc ''hao'')) Fts (Some (- 3))))
     = Some Fts \<and>
   fts_rank (merge_into (as_result (example_row 1 [0x597D] (asc ''fine'') (asc ''hao'')) Other None)
                 (as_result (example_row 2 [0x597D] (asc ''good'') (asc ''hao'')) Fts (Some (- 3))))
     = Some (- 3) \<and>
   match_type (merge_into (as_result (example_row 1 [0x597D] (asc ''fine'') (asc ''hao'')) Exact None)
                 (as_result (example_row 2 [0x597D] (asc ''good'') (asc ''hao'')) Fts (Some (- 3))))
     = Some Exact \<and>
   fts_rank (merge_into (as_result (example_row 1 [0x597D] (asc ''fine'') (asc ''hao'')) Exact None)
                 (as_result (example_row 2 [0x597D] (asc ''good'') (asc ''hao'')) Fts (Some (- 3))))
     = None"
proof -
  let ?r = "as_result (example_row 2 [0x597D] (asc ''good'') (asc ''hao'')) Fts (Some (- 3))"
  let ?o = "as_result (example_row 1 [0x597D] (asc ''fine'') (asc ''hao'')) Other None"
  let ?x = "as_result (example_row 1 [0x597D] (asc ''fine'') (asc ''hao'')) Exact None"
  have g: "get_match_type ?r = Fts" "fts_rank ?r \<noteq> None" "match_type ?r = Some Fts"
    "fts_rank ?r = Some (- 3)" "get_match_type ?o = Other" "get_match_type ?x = Exact"
    "match_type ?x = Some Exact" "fts_rank ?x = None"
    by (simp_all add: as_result_def get_match_type_def)
  have h: "get_match_type ?r = Fts \<longrightarrow> fts_rank ?r \<noteq> None" using g by simp
  from merge_match_type_precedence[OF h, of ?o] merge_match_type_precedence[OF h, of ?x] g
  show ?thesis by (simp add: priority_map_def)
qed

section \<open>Properties of enrichment\<close>

lemma breakdown_items:
  assumes "cache_ok db char_cache"
    and "\<forall>c\<in>set chars. \<exists>rows. query_dict db Char_lookup [[c]] = Inr rows"
  shows "\<exists>char_cache'. breakdown db chars char_cache items =
            Inr (items @ map (expected_item db) chars, char_cache') \<and> cache_ok db char_cache'"
  using assms
proof (induction chars arbitrary: char_cache items)
  case Nil
  then show ?case by simp
next
  case (Cons c chars)
  from Cons.prems(2) have rest: "\<forall>c\<in>set chars. \<exists>rows. query_dict db Char_lookup [[c]] = Inr rows"
    by simp
  from Cons.prems(2) obtain rows where rows: "query_dict db Char_lookup [[c]] = Inr rows" by auto
  show ?case
  proof (cases "char_cache c")
    case (Some info)
    with Cons.prems(1) have "info = expected_item db c" by (simp add: cache_ok_def)
    with Some Cons.IH[OF Cons.prems(1) rest, of "items @ [info]"] show ?thesis by simp
  next
    case None
    show ?thesis
    proof (cases rows)
      case Nil
      with rows have "expected_item db c = fallback c" by (simp add: expected_item_def)
      with None rows Nil Cons.IH[OF Cons.prems(1) rest, of "items @ [fallback c]"]
      show ?thesis by simp
    next
      case (Cons char_data rv)
      with rows have e: "expected_item db c = found char_data" by (simp add: expected_item_def)
      with Cons.prems(1) have "cache_ok db (char_cache(c \<mapsto> found char_data))"
        by (simp add: cache_ok_def)
      from Cons.IH[OF this rest, of "items @ [found char_data]"] obtain cache' where
        "breakdown db chars (char_cache(c \<mapsto> found char_data)) (items @ [found char_data]) =
           Inr ((items @ [found char_data]) @ map (expected_item db) chars, cache')"
        "cache_ok db cache'" by blast
      moreover have "breakdown db (c # chars) char_cache items =
          breakdown db chars (char_cache(c \<mapsto> found char_data)) (items @ [found char_data])"
        using None rows Cons by simp
      ultimately show ?thesis using e by simp
    qed
  qed
qed

lemma enrich_items:
  assumes "cache_ok db char_cache"
    and "\<forall>r\<in>set rs. (\<exists>exs. query_sentences db ([37] @ simplified r @ [37]) 3 = Inr exs) \<and>
           (\<forall>c\<in>set (simplified r). \<exists>rows. query_dict db Char_lookup [[c]] = Inr rows)"
  shows "\<exists>out. enrich db rs char_cache = Inr out \<and>
           list_all2 (\<lambda>r e. character_breakdown e =
                        (if 2 \<le> length (simplified r) then map (expected_item db) (simplified r)
                         else []) \<and>
                      query_sentences db ([37] @ simplified r @ [37]) 3 = Inr (examples e) \<and>
                      e = r\<lparr>examples := examples e, character_breakdown := character_breakdown e,
                             match_type := None\<rparr>) rs out"
  using assms
proof (induction rs arbitrary: char_cache)
  case Nil
  then show ?case by simp
next
  case (Cons r rs)
  from Cons.prems(2) obtain exs where exs: "query_sentences db ([37] @ simplified r @ [37]) 3 = Inr exs"
    by auto
  from Cons.prems(2) have chars: "\<forall>c\<in>set (simplified r). \<exists>rows. query_dict db Char_lookup [[c]] = Inr rows"
    and rest: "\<forall>r\<in>set rs. (\<exists>exs. query_sentences db ([37] @ simplified r @ [37]) 3 = Inr exs) \<and>
           (\<forall>c\<in>set (simplified r). \<exists>rows. query_dict db Char_lookup [[c]] = Inr rows)"
    by simp_all
  obtain items cache' where b:
    "(if length (simplified r) \<ge> 2 then breakdown db (simplified r) char_cache []
      else Inr ([], char_cache)) = Inr (items, cache')"
    and items: "items = (if 2 \<le> length (simplified r) then map (expected_item db) (simplified r) else [])"
    and ok: "cache_ok db cache'"
    using breakdown_items[OF Cons.prems(1) chars, of "[]"] Cons.prems(1) by (cases "2 \<le> length (simplified r)") auto
  from Cons.IH[OF ok rest] obtain out where out: "enrich db rs cache' = Inr out"
    and all: "list_all2 (\<lambda>r e. character_breakdown e =
                        (if 2 \<le> length (simplified r) then map (expected_item db) (simplified r)
                         else []) \<and>
                      query_sentences db ([37] @ simplified r @ [37]) 3 = Inr (examples e) \<and>
                      e = r\<lparr>examples := examples e, character_breakdown := character_breakdown e,
                             match_type := None\<rparr>) rs out"
    by blast
  have "enrich db (r # rs) char_cache =
          Inr (r\<lparr>examples := exs, character_breakdown := items, match_type := None\<rparr> # out)"
    using exs b out by simp
  with all items exs show ?case by simp
qed

text \<open>
  Claim C9. If the store answers every query of the enrichment (no database error), the
  enrichment of the page returns a result for each result of the page. For a result of two
  or more characters the breakdown has one item per character, and the item of a character
  with no single-character entry is the placeholder: the character itself as simplified and
  traditional form, and \<open>N/A\<close> as definitions. A missing entry raises nothing.
\<close>

theorem missing_character_placeholder:
  assumes "\<forall>r\<in>set rs. (\<exists>exs. query_sentences db ([37] @ simplified r @ [37]) 3 = Inr exs) \<and>
             (\<forall>c\<in>set (simplified r). \<exists>rows. query_dict db Char_lookup [[c]] = Inr rows)"
  shows "\<exists>out. enrich db rs Map.empty = Inr out \<and> length out = length rs \<and>
           (\<forall>k<length rs. 2 \<le> length (simplified (rs ! k)) \<longrightarrow>
              length (character_breakdown (out ! k)) = length (simplified (rs ! k)) \<and>
              (\<forall>i<length (simplified (rs ! k)).
                 query_dict db Char_lookup [[simplified (rs ! k) ! i]] = Inr [] \<longrightarrow>
                 character_breakdown (out ! k) ! i =
                   \<lparr>ci_simplified = [simplified (rs ! k) ! i],
                    ci_traditional = [simplified (rs ! k) ! i], ci_pinyin_marks = [],
                    ci_definitions = asc ''N/A'', ci_short_definitions = asc ''N/A'',
                    ci_row = None\<rparr>))"
proof -
  have "cache_ok db Map.empty" by (simp add: cache_ok_def)
  from enrich_items[OF this assms] obtain out where out: "enrich db rs Map.empty = Inr out"
    and all: "list_all2 (\<lambda>r e. character_breakdown e =
                        (if 2 \<le> length (simplified r) then map (expected_item db) (simplified r)
                         else []) \<and>
                      query_sentences db ([37] @ simplified r @ [37]) 3 = Inr (examples e) \<and>
                      e = r\<lparr>examples := examples e, character_breakdown := character_breakdown e,
                             match_type := None\<rparr>) rs out"
    by blast
  from all have len: "length out = length rs" by (simp add: list_all2_lengthD)
  have "length (character_breakdown (out ! k)) = length (simplified (rs ! k)) \<and>
        (\<forall>i<length (simplified (rs ! k)).
           query_dict db Char_lookup [[simplified (rs ! k) ! i]] = Inr [] \<longrightarrow>
           character_breakdown (out ! k) ! i = fallback (simplified (rs ! k) ! i))"
    if k: "k < length rs" and two: "2 \<le> length (simplified (rs ! k))" for k
  proof -
    from all k have "character_breakdown (out ! k) = map (expected_item db) (simplified (rs ! k))"
      using two by (auto dest: list_all2_nthD)
    then show ?thesis by (simp add: expected_item_def)
  qed
  with out len show ?thesis by (simp add: fallback_def)
qed

theorem missing_character_placeholder_witness:
  "query_dict example_store Char_lookup [[0x4F60]] = Inr [] \<and>
   (\<exists>out. enrich example_store
            [(as_result (example_row 7 [0x4F60, 0x597D] (asc ''hello'') (asc ''ni hao'')) Exact None)
               \<lparr>simplified := [0x4F60, 0x597D]\<rparr>] Map.empty = Inr out \<and>
          length out = 1 \<and>
          length (character_breakdown (out ! 0)) = 2 \<and>
          character_breakdown (out ! 0) ! 0 =
            \<lparr>ci_simplified = [0x4F60], ci_traditional = [0x4F60], ci_pinyin_marks = [],
             ci_definitions = asc ''N/A'', ci_short_definitions = asc ''N/A'', ci_row = None\<rparr>)"
proof -
  let ?r = "(as_result (example_row 7 [0x4F60, 0x597D] (asc ''hello'') (asc ''ni hao'')) Exact None)
               \<lparr>simplified := [0x4F60, 0x597D]\<rparr>"
  have s: "simplified ?r = [0x4F60, 0x597D]" by simp
  have q: "query_dict example_store Char_lookup [[0x4F60]] = Inr []"
    by (simp add: example_store_def)
  have h: "\<forall>r\<in>set [?r]. (\<exists>exs. query_sentences example_store ([37] @ simplified r @ [37]) 3 = Inr exs) \<and>
             (\<forall>c\<in>set (simplified r). \<exists>rows. query_dict example_store Char_lookup [[c]] = Inr rows)"
    by (simp add: example_store_def)
  from missing_character_placeholder[OF h] obtain out where
    o: "enrich example_store [?r] Map.empty = Inr out" "length out = length [?r]" and
    p: "\<forall>k<length [?r]. 2 \<le> length (simplified ([?r] ! k)) \<longrightarrow>
              length (character_breakdown (out ! k)) = length (simplified ([?r] ! k)) \<and>
              (\<forall>i<length (simplified ([?r] ! k)).
                 query_dict example_store Char_lookup [[simplified ([?r] ! k) ! i]] = Inr [] \<longrightarrow>
                 character_breakdown (out ! k) ! i =
                   \<lparr>ci_simplified = [simplified ([?r] ! k) ! i],
                    ci_traditional = [simplified ([?r] ! k) ! i], ci_pinyin_marks = [],
                    ci_definitions = asc ''N/A'', ci_short_definitions = asc ''N/A'',
                    ci_row = None\<rparr>)"
    by blast
  from p[rule_format, of 0] have
    "length (character_breakdown (out ! 0)) = 2 \<and>
     (\<forall>i<2. query_dict example_store Char_lookup [[[0x4F60, 0x597D] ! i]] = Inr [] \<longrightarrow>
        character_breakdown (out ! 0) ! i =
          \<lparr>ci_simplified = [[0x4F60, 0x597D] ! i], ci_traditional = [[0x4F60, 0x597D] ! i],
           ci_pinyin_marks = [], ci_definitions = asc ''N/A'', ci_short_definitions = asc ''N/A'',
           ci_row = None\<rparr>)"
    by (simp add: s)
  then have "length (character_breakdown (out ! 0)) = 2"
    "character_breakdown (out ! 0) ! 0 =
       \<lparr>ci_simplified = [0x4F60], ci_traditional = [0x4F60], ci_pinyin_marks = [],
        ci_definitions = asc ''N/A'', ci_short_definitions = asc ''N/A'', ci_row = None\<rparr>"
    using q by auto
  with o q show ?thesis by auto
qed

end
